theory Spec2Isabelle
  imports Main "HOL-Library.Word"
begin

unbundle bit_operations_syntax

section \<open>Data model (ground/inc/altair/packet_parser.hpp)\<close>

text \<open>
  The ground station of the NanoSatellite repository, embedded shallowly. Bytes are
  \<open>uint8_t\<close>, timestamps \<open>uint32_t\<close>. A \<open>std::vector<uint8_t>\<close> is a list of bytes.
  Reading a vector with \<open>operator[]\<close> beyond its size is undefined behaviour in C++; the
  model makes it the value \<open>Inl OutOfBounds\<close>. \<open>std::length_error\<close> thrown by the
  standard library is \<open>Inl LengthError\<close>. The one operator command whose branch works on
  \<open>float\<close> values (\<open>update_voltage\<close>) is \<open>Inl Unmodelled\<close>. Output to \<open>std::cout\<close> is not
  part of the model.
\<close>

type_synonym u8 = "8 word"
type_synonym u32 = "32 word"

datatype error = OutOfBounds | LengthError | Unmodelled

definition END_MARK :: u8 where
  "END_MARK = 0x55"

definition PACKET_HEADER_SIZE :: u8 where
  "PACKET_HEADER_SIZE = 5"

text \<open>
  \<open>struct SensorData\<close>. The field \<open>mode\<close> holds the byte that was cast to the enum
  \<open>AltairModes\<close> (1 error, 2 safe, 3 ok); \<open>voltage\<close> holds the four bytes of the
  \<open>float\<close> as a little-endian bit pattern, since the code only ever copies the bytes.
\<close>

record SensorData =
  timestamp :: u32
  temp :: u8
  humid :: u8
  light :: u8
  mode :: u8
  voltage :: u32

text \<open>\<open>struct EventData\<close>: the event byte cast to \<open>AltairEvent\<close>, and its time.\<close>

record EventData =
  event_timestamp :: u32
  event :: u8

text \<open>Sequencing of fallible steps: the first failure is the result.\<close>

definition bnd :: "error + 'a \<Rightarrow> ('a \<Rightarrow> error + 'b) \<Rightarrow> error + 'b" where
  "bnd m f = (case m of Inl e \<Rightarrow> Inl e | Inr x \<Rightarrow> f x)"

text \<open>\<open>response[i]\<close> on a \<open>std::vector<uint8_t>\<close>.\<close>

definition at :: "u8 list \<Rightarrow> nat \<Rightarrow> error + u8" where
  "at v i = (if i < length v then Inr (v ! i) else Inl OutOfBounds)"

text \<open>
  Four bytes copied, lowest address first, into the object representation of a
  \<open>uint32_t\<close> or \<open>float\<close> (the loops \<open>*buffer++ = response[idx + i]\<close>); the host is
  little-endian, as the satellite is.
\<close>

definition le32 :: "u8 \<Rightarrow> u8 \<Rightarrow> u8 \<Rightarrow> u8 \<Rightarrow> u32" where
  "le32 b0 b1 b2 b3 =
     ucast b0 OR push_bit 8 (ucast b1) OR push_bit 16 (ucast b2) OR push_bit 24 (ucast b3)"

definition read_le32 :: "u8 list \<Rightarrow> nat \<Rightarrow> error + u32" where
  "read_le32 v idx =
     bnd (at v idx) (\<lambda>b0.
     bnd (at v (idx + 1)) (\<lambda>b1.
     bnd (at v (idx + 2)) (\<lambda>b2.
     bnd (at v (idx + 3)) (\<lambda>b3.
     Inr (le32 b0 b1 b2 b3)))))"

section \<open>Packet parser (ground/src/altair/packet_parser.cpp)\<close>

text \<open>
  \<open>PacketParser::parse_sensor_data(response, data)\<close>: \<open>data\<close> is an in/out parameter.
  The only guard before the reads at offsets 4 to 11 is \<open>len == 0\<close>; the timestamp at
  12 to 15 is read under \<open>len > idx + 3\<close> with \<open>idx = 12\<close>.
\<close>

definition parse_sensor_data :: "u8 list \<Rightarrow> SensorData \<Rightarrow> error + SensorData" where
  "parse_sensor_data response data =
     (let len = length response; idx = 4 in
      if len = 0 then Inr data
      else
        bnd (at response idx) (\<lambda>v_temp.
        bnd (at response (idx + 1)) (\<lambda>v_humid.
        bnd (at response (idx + 2)) (\<lambda>v_light.
        bnd (at response (idx + 3)) (\<lambda>v_mode.
        bnd (read_le32 response (idx + 4)) (\<lambda>v_voltage.
        let data1 = data\<lparr>temp := v_temp, humid := v_humid, light := v_light,
                          mode := v_mode, voltage := v_voltage\<rparr>;
            idx2 = idx + 4 + 4
        in if len > idx2 + 3
           then bnd (read_le32 response idx2) (\<lambda>v_ts. Inr (data1\<lparr>timestamp := v_ts\<rparr>))
           else Inr data1))))))"

text \<open>
  \<open>PacketParser::parse_event_data(response, event_data)\<close>: the event byte at offset 4 is
  read without a guard, the timestamp at 5 to 8 under \<open>idx + 3 < len\<close> with \<open>idx = 5\<close>.
\<close>

definition parse_event_data :: "u8 list \<Rightarrow> EventData \<Rightarrow> error + EventData" where
  "parse_event_data response event_data =
     (let len = length response; idx = 4 in
      bnd (at response idx) (\<lambda>v_event.
      let event_data1 = event_data\<lparr>event := v_event\<rparr>; idx1 = idx + 1
      in if idx1 + 3 < len
         then bnd (read_le32 response idx1) (\<lambda>v_ts. Inr (event_data1\<lparr>event_timestamp := v_ts\<rparr>))
         else Inr event_data1))"

text \<open>The codes of \<open>enum ResponseType\<close>.\<close>

definition BEACON :: u8 where "BEACON = 0x01"
definition TIME_SEND :: u8 where "TIME_SEND = 0x02"
definition UPDATE_MIN_TEMP :: u8 where "UPDATE_MIN_TEMP = 0x03"
definition UPDATE_HUMIDITY :: u8 where "UPDATE_HUMIDITY = 0x04"
definition UPDATE_VOLTAGE :: u8 where "UPDATE_VOLTAGE = 0x05"
definition UPDATE_LIGHT :: u8 where "UPDATE_LIGHT = 0x06"
definition EVENT :: u8 where "EVENT = 0x07"
definition ACK :: u8 where "ACK = 0x08"
definition NACK :: u8 where "NACK = 0x09"
definition UPDATE_MAX_TEMP :: u8 where "UPDATE_MAX_TEMP = 0x0A"
definition TIME_REQUEST :: u8 where "TIME_REQUEST = 0x10"
definition SENSOR_LOG :: u8 where "SENSOR_LOG = 0x11"
definition TOTAL_LOGS :: u8 where "TOTAL_LOGS = 0x12"
definition REQUEST_SENSOR_LOGS :: u8 where "REQUEST_SENSOR_LOGS = 0x13"
definition EVENT_LOG :: u8 where "EVENT_LOG = 0x14"
definition EVENT_LOG_END :: u8 where "EVENT_LOG_END = 0x15"
definition REQUEST_EVENT_LOG :: u8 where "REQUEST_EVENT_LOG = 0x16"
definition REQUEST_CURRENT_TIME :: u8 where "REQUEST_CURRENT_TIME = 0x17"
definition RESPONSE_CURRENT_TIME :: u8 where "RESPONSE_CURRENT_TIME = 0x18"

text \<open>
  \<open>struct MessagePacket\<close>. The payload \<open>buffer[128]\<close> is a function from the index to the
  byte; indices from 128 on lie outside the array.
\<close>

record MessagePacket =
  data_len :: u8
  packetType :: u8
  m_respnse_id :: u8
  checksum :: u8
  buffer :: "nat \<Rightarrow> u8"
  end_mark :: u8

text \<open>
  \<open>PacketParser::create_message_packet(type, response_id)\<close>. The local \<open>MessagePacket
  packet\<close> is not initialised, so its buffer holds indeterminate bytes: they are the
  parameter \<open>uninit\<close>.
\<close>

definition create_message_packet :: "(nat \<Rightarrow> u8) \<Rightarrow> u8 \<Rightarrow> u8 \<Rightarrow> MessagePacket" where
  "create_message_packet uninit type response_id =
     \<lparr>data_len = PACKET_HEADER_SIZE, packetType = type, m_respnse_id = response_id,
      checksum = 0x00, buffer = uninit, end_mark = END_MARK\<rparr>"

section \<open>Sensor index (ground/src/altair/server_data_manager.cpp)\<close>

text \<open>
  \<open>std::lower_bound\<close> and \<open>std::upper_bound\<close> on a vector are the halving search of the
  standard library: \<open>first\<close> and \<open>len\<close> delimit the range still to search, \<open>p\<close> holds on
  the elements that lie before the position looked for. For \<open>lower_bound\<close> with the
  comparator \<open>a.timestamp < t\<close> that is \<open>timestamp a < t\<close>; for \<open>upper_bound\<close> with the
  comparator \<open>t < a.timestamp\<close> it is \<open>\<not> t < timestamp a\<close>. The result is an index into the
  vector, \<open>length v\<close> standing for \<open>end()\<close>.
\<close>

function bsearch :: "('a \<Rightarrow> bool) \<Rightarrow> 'a list \<Rightarrow> nat \<Rightarrow> nat \<Rightarrow> nat" where
  "bsearch p xs first len =
     (if len = 0 then first
      else let half = len div 2; middle = first + half in
        if p (xs ! middle) then bsearch p xs (middle + 1) (len - half - 1)
        else bsearch p xs first half)"
  by pat_completeness auto
termination
  by (relation "measure (\<lambda>(p, xs, first, len). len)") auto

declare bsearch.simps [simp del]

definition lower_bound :: "SensorData list \<Rightarrow> u32 \<Rightarrow> nat" where
  "lower_bound v t = bsearch (\<lambda>a. timestamp a < t) v 0 (length v)"

definition upper_bound :: "SensorData list \<Rightarrow> u32 \<Rightarrow> nat" where
  "upper_bound v t = bsearch (\<lambda>a. \<not> t < timestamp a) v 0 (length v)"

text \<open>
  \<open>ServerDataManager::insertSensorData(data)\<close> on the vector \<open>m_sensor_data\<close>: the result is
  the returned \<open>bool\<close> and the vector afterwards.
\<close>

definition insertSensorData :: "SensorData \<Rightarrow> SensorData list \<Rightarrow> bool \<times> SensorData list" where
  "insertSensorData data m_sensor_data =
     (let pos = lower_bound m_sensor_data (timestamp data) in
      if pos \<noteq> length m_sensor_data \<and> timestamp (m_sensor_data ! pos) = timestamp data
      then (True, m_sensor_data)
      else (True, take pos m_sensor_data @ data # drop pos m_sensor_data))"

text \<open>
  \<open>ServerDataManager::getSensorDataInRange(start_time, end_time)\<close>. \<open>Inr None\<close> is
  \<open>std::nullopt\<close>. Before the copy loop the code calls
  \<open>result.reserve(std::distance(lower, upper))\<close>: when \<open>upper\<close> lies before \<open>lower\<close> the
  distance is negative, its conversion to \<open>size_t\<close> exceeds \<open>max_size()\<close>, and \<open>reserve\<close>
  throws \<open>std::length_error\<close>. Otherwise the loop copies the elements at \<open>lower\<close> up to,
  not including, \<open>upper\<close>.
\<close>

definition getSensorDataInRange ::
  "u32 \<Rightarrow> u32 \<Rightarrow> SensorData list \<Rightarrow> error + SensorData list option" where
  "getSensorDataInRange start_time end_time m_sensor_data =
     (if m_sensor_data = [] then Inr None
      else if start_time > timestamp (last m_sensor_data) then Inr None
      else
        let lower = lower_bound m_sensor_data start_time;
            upper = upper_bound m_sensor_data end_time
        in if upper < lower then Inl LengthError
           else Inr (Some (map (\<lambda>it. m_sensor_data ! it) [lower..<upper])))"

text \<open>
  The class invariant stated in the header (\<open>m_sensor_data\<close>: "Collection of sensor data
  sorted by timestamp"); the timestamps are strictly ascending, since a duplicate is not
  inserted. \<open>index_reachable\<close> are the vectors the class can hold: it starts empty and
  changes through \<open>insertSensorData\<close> only (\<open>clear\<close> empties it again).
\<close>

definition index_sorted :: "SensorData list \<Rightarrow> bool" where
  "index_sorted v = sorted_wrt (<) (map timestamp v)"

inductive index_reachable :: "SensorData list \<Rightarrow> bool" where
  reach_empty: "index_reachable []"
| reach_insert: "index_reachable v \<Longrightarrow> index_reachable (snd (insertSensorData r v))"

section \<open>Server state (ground/inc/altair/altair_server.hpp, id_generator.cpp)\<close>

text \<open>
  An operator session (\<open>std::shared_ptr<ClientSession>\<close>) is a handle. The state of
  \<open>AltairServer\<close> holds the members the code reads and writes: \<open>m_latest_data\<close>, the
  counter \<open>current_id\<close> of the \<open>IDGenerator\<close> singleton, the map \<open>m_request_clients\<close>
  and the vector \<open>m_sensor_data\<close> of the \<open>ServerDataManager\<close>. Its two outputs are logs:
  \<open>link_sent\<close> holds the byte vectors passed to \<open>m_connection->send\<close>, oldest first, and
  \<open>client_sent\<close> the calls of \<open>ClientSession::sendMessage\<close> with the session they were
  made on.
\<close>

type_synonym client = nat

record AltairServer =
  m_latest_data :: SensorData
  current_id :: u8
  m_request_clients :: "u8 \<Rightarrow> client option"
  m_sensor_data :: "SensorData list"
  link_sent :: "u8 list list"
  client_sent :: "(client \<times> string) list"

text \<open>
  What the code takes from outside or leaves indeterminate: the contents of locals that
  are read before they are written (\<open>uninit_buffer\<close> for \<open>MessagePacket::buffer\<close>,
  \<open>uninit_sensor\<close> and \<open>uninit_event\<close> for the locals of the log handlers, \<open>uninit_int\<close>
  and \<open>uninit_u32\<close> for the targets of a stream extraction that does not store), the
  system clock \<open>now\<close> in epoch seconds, and the text formatting that depends on
  \<open>float\<close> output and on the local time zone. \<open>help_message\<close> is the literal of the
  \<open>help\<close> command.
\<close>

record env =
  uninit_buffer :: "nat \<Rightarrow> u8"
  uninit_sensor :: SensorData
  uninit_event :: EventData
  uninit_int :: int
  uninit_u32 :: u32
  now :: u32
  format_timestamp :: "u32 \<Rightarrow> string"
  sensor_data_to_string :: "SensorData \<Rightarrow> string"
  event_data_to_string :: "EventData \<Rightarrow> string"
  float_to_stream :: "u32 \<Rightarrow> string"
  help_message :: string

text \<open>\<open>IDGenerator::generateID\<close>: \<open>id = current_id++\<close> on a \<open>uint8_t\<close>.\<close>

definition generateID :: "AltairServer \<Rightarrow> u8 \<times> AltairServer" where
  "generateID s = (current_id s, s\<lparr>current_id := current_id s + 1\<rparr>)"

definition sendMessage :: "client \<Rightarrow> string \<Rightarrow> AltairServer \<Rightarrow> AltairServer" where
  "sendMessage c message s = s\<lparr>client_sent := client_sent s @ [(c, message)]\<rparr>"

section \<open>Outbound packets (ground/src/altair/altair_server.cpp)\<close>

text \<open>
  \<open>AltairServer::send_packet_to_altair(message_packet)\<close>. The loop bound
  \<open>message_packet.data_len - PACKET_HEADER_SIZE\<close> is computed on \<open>int\<close>; the loop reads
  \<open>buffer[0]\<close> up to that bound, which leaves the array when the bound exceeds 128.
\<close>

definition send_packet_to_altair :: "MessagePacket \<Rightarrow> AltairServer \<Rightarrow> error + AltairServer" where
  "send_packet_to_altair message_packet s =
     (let (rid, s1) = (if m_respnse_id message_packet = 0xFF then generateID s
                       else (m_respnse_id message_packet, s));
          n = int (unat (data_len message_packet)) - int (unat PACKET_HEADER_SIZE)
      in if 128 < n then Inl OutOfBounds
         else Inr (s1\<lparr>link_sent := link_sent s1 @
                 [[data_len message_packet, packetType message_packet, rid,
                   checksum message_packet]
                  @ map (buffer message_packet) [0..<nat n]
                  @ [end_mark message_packet]]\<rparr>))"

text \<open>The loops \<open>packet.buffer[off + i] = bytes[i]\<close>.\<close>

definition write_bytes :: "nat \<Rightarrow> u8 list \<Rightarrow> (nat \<Rightarrow> u8) \<Rightarrow> (nat \<Rightarrow> u8)" where
  "write_bytes off bytes buf =
     (\<lambda>i. if off \<le> i \<and> i < off + length bytes then bytes ! (i - off) else buf i)"

text \<open>The object representation of a \<open>uint32_t\<close>, lowest address first.\<close>

definition bytes_of_u32 :: "u32 \<Rightarrow> u8 list" where
  "bytes_of_u32 w = [ucast w, ucast (drop_bit 8 w), ucast (drop_bit 16 w), ucast (drop_bit 24 w)]"

text \<open>
  \<open>AltairServer::send_value<T>(type, value)\<close>, with the object representation of the
  value as the list \<open>bytes\<close> (\<open>sizeof(T)\<close> is its length).
\<close>

definition send_value :: "env \<Rightarrow> u8 \<Rightarrow> u8 list \<Rightarrow> AltairServer \<Rightarrow> error + AltairServer" where
  "send_value e type bytes s =
     (let (rid, s1) = generateID s;
          packet = create_message_packet (uninit_buffer e) type rid;
          packet1 = packet\<lparr>data_len := data_len packet + of_nat (length bytes)\<rparr>;
          packet2 = packet1\<lparr>buffer := write_bytes 0 bytes (buffer packet1)\<rparr>
      in send_packet_to_altair packet2 s1)"

definition get_current_time :: "env \<Rightarrow> client \<Rightarrow> AltairServer \<Rightarrow> error + AltairServer" where
  "get_current_time e c s =
     (let (rid, s1) = generateID s;
          packet = create_message_packet (uninit_buffer e) REQUEST_CURRENT_TIME rid;
          packet1 = packet\<lparr>data_len := data_len packet + 4\<rparr>;
          s2 = s1\<lparr>m_request_clients := (m_request_clients s1)(m_respnse_id packet1 \<mapsto> c)\<rparr>
      in send_packet_to_altair packet1 s2)"

definition get_event_in_range ::
  "env \<Rightarrow> u32 \<Rightarrow> u32 \<Rightarrow> client \<Rightarrow> AltairServer \<Rightarrow> error + AltairServer" where
  "get_event_in_range e start end c s =
     (let (rid, s1) = generateID s;
          packet = create_message_packet (uninit_buffer e) REQUEST_EVENT_LOG rid;
          packet1 = packet\<lparr>data_len := data_len packet + 4 * 2\<rparr>;
          s2 = s1\<lparr>m_request_clients := (m_request_clients s1)(m_respnse_id packet1 \<mapsto> c)\<rparr>;
          packet2 = packet1\<lparr>buffer := write_bytes 0 (bytes_of_u32 start) (buffer packet1)\<rparr>;
          packet3 = packet2\<lparr>buffer := write_bytes 4 (bytes_of_u32 end) (buffer packet2)\<rparr>
      in send_packet_to_altair packet3 s2)"

definition get_sensor_in_range ::
  "env \<Rightarrow> u32 \<Rightarrow> u32 \<Rightarrow> client \<Rightarrow> AltairServer \<Rightarrow> error + AltairServer" where
  "get_sensor_in_range e start end c s =
     (let (rid, s1) = generateID s;
          packet = create_message_packet (uninit_buffer e) REQUEST_SENSOR_LOGS rid;
          packet1 = packet\<lparr>data_len := data_len packet + 4 * 2\<rparr>;
          s2 = s1\<lparr>m_request_clients := (m_request_clients s1)(m_respnse_id packet1 \<mapsto> c)\<rparr>;
          packet2 = packet1\<lparr>buffer := write_bytes 0 (bytes_of_u32 start) (buffer packet1)\<rparr>;
          packet3 = packet2\<lparr>buffer := write_bytes 4 (bytes_of_u32 end) (buffer packet2)\<rparr>
      in send_packet_to_altair packet3 s2)"

definition send_custom_time :: "env \<Rightarrow> u32 \<Rightarrow> AltairServer \<Rightarrow> error + AltairServer" where
  "send_custom_time e custom_time s = send_value e TIME_SEND (bytes_of_u32 custom_time) s"

definition send_current_time :: "env \<Rightarrow> AltairServer \<Rightarrow> error + AltairServer" where
  "send_current_time e s = send_value e TIME_SEND (bytes_of_u32 (now e)) s"

definition update_max_temp :: "env \<Rightarrow> u8 \<Rightarrow> AltairServer \<Rightarrow> error + AltairServer" where
  "update_max_temp e max_temp s = send_value e UPDATE_MAX_TEMP [max_temp] s"

definition update_min_temp :: "env \<Rightarrow> u8 \<Rightarrow> AltairServer \<Rightarrow> error + AltairServer" where
  "update_min_temp e min_temp s = send_value e UPDATE_MIN_TEMP [min_temp] s"

definition update_humidity :: "env \<Rightarrow> u8 \<Rightarrow> AltairServer \<Rightarrow> error + AltairServer" where
  "update_humidity e humidity s = send_value e UPDATE_HUMIDITY [humidity] s"

definition update_light :: "env \<Rightarrow> u8 \<Rightarrow> AltairServer \<Rightarrow> error + AltairServer" where
  "update_light e light_value s = send_value e UPDATE_LIGHT [light_value] s"

section \<open>Inbound handlers (ground/src/altair/altair_server.cpp)\<close>

text \<open>
  Every handler has the signature of \<open>ResponseHandler\<close>: the frame and the response id.
  Erasing an entry of \<open>m_request_clients\<close> sets the key to \<open>None\<close>.
\<close>

type_synonym ResponseHandler =
  "env \<Rightarrow> u8 list \<Rightarrow> u8 \<Rightarrow> AltairServer \<Rightarrow> error + AltairServer"

definition handle_time_request :: ResponseHandler where
  "handle_time_request e response responseId s = send_current_time e s"

definition handle_sensor_log :: ResponseHandler where
  "handle_sensor_log e response responseId s =
     bnd (parse_sensor_data response (uninit_sensor e)) (\<lambda>sensor_data.
     let s1 = s\<lparr>m_sensor_data := snd (insertSensorData sensor_data (m_sensor_data s))\<rparr>
     in case m_request_clients s1 responseId of
          Some c \<Rightarrow>
            Inr (sendMessage c ([CHR 0x0A] @ ''Sensor log data:'' @ [CHR 0x0A]
                                @ sensor_data_to_string e sensor_data) s1)
        | None \<Rightarrow> Inr s1)"

definition handle_sensor_log_end :: ResponseHandler where
  "handle_sensor_log_end e response responseId s =
     (case m_request_clients s responseId of
        Some c \<Rightarrow>
          Inr ((sendMessage c (''Completed retrieval of sensor logs.'' @ [CHR 0x0A]) s)
                 \<lparr>m_request_clients := (m_request_clients s)(responseId := None)\<rparr>)
      | None \<Rightarrow> Inr s)"

definition handle_ack :: ResponseHandler where
  "handle_ack e response responseId s =
     (case m_request_clients s responseId of
        Some c \<Rightarrow>
          Inr ((sendMessage c ''Sucess operation'' s)
                 \<lparr>m_request_clients := (m_request_clients s)(responseId := None)\<rparr>)
      | None \<Rightarrow> Inr s)"

definition handle_nack :: ResponseHandler where
  "handle_nack e response responseId s =
     (case m_request_clients s responseId of
        Some c \<Rightarrow>
          Inr ((sendMessage c ''Request failed. Please try again.'' s)
                 \<lparr>m_request_clients := (m_request_clients s)(responseId := None)\<rparr>)
      | None \<Rightarrow> Inr s)"

definition handle_event :: ResponseHandler where
  "handle_event e response responseId s =
     bnd (parse_event_data response (uninit_event e)) (\<lambda>event_data. Inr s)"

definition handle_event_log :: ResponseHandler where
  "handle_event_log e response responseId s =
     bnd (parse_event_data response (uninit_event e)) (\<lambda>event_data.
     case m_request_clients s responseId of
       Some c \<Rightarrow>
         Inr (sendMessage c ([CHR 0x0A] @ ''Event log data:'' @ [CHR 0x0A]
                             @ event_data_to_string e event_data) s)
     | None \<Rightarrow> Inr s)"

definition handle_event_log_end :: ResponseHandler where
  "handle_event_log_end e response responseId s =
     (case m_request_clients s responseId of
        Some c \<Rightarrow>
          Inr ((sendMessage c ([CHR 0x0A] @ ''Completed retrieval of events logs.''
                               @ [CHR 0x0A]) s)
                 \<lparr>m_request_clients := (m_request_clients s)(responseId := None)\<rparr>)
      | None \<Rightarrow> Inr s)"

definition handle_response_current_time :: ResponseHandler where
  "handle_response_current_time e response responseId s =
     (case m_request_clients s responseId of
        Some c \<Rightarrow>
          bnd (read_le32 response 4) (\<lambda>current_time.
          let local_time = format_timestamp e current_time
          in Inr ((sendMessage c (''Current time: '' @ local_time @ [CHR 0x0A]) s)
                    \<lparr>m_request_clients := (m_request_clients s)(responseId := None)\<rparr>))
      | None \<Rightarrow> Inr s)"

definition handle_beacon :: ResponseHandler where
  "handle_beacon e response responseId s =
     bnd (parse_sensor_data response (m_latest_data s)) (\<lambda>data.
     Inr (s\<lparr>m_latest_data := data\<rparr>))"

text \<open>The table filled by \<open>AltairServer::init_response_handlers\<close>.\<close>

definition m_response_handlers :: "u8 \<Rightarrow> ResponseHandler option" where
  "m_response_handlers =
     [TIME_REQUEST \<mapsto> handle_time_request,
      SENSOR_LOG \<mapsto> handle_sensor_log,
      TOTAL_LOGS \<mapsto> handle_sensor_log_end,
      ACK \<mapsto> handle_ack,
      NACK \<mapsto> handle_nack,
      EVENT \<mapsto> handle_event,
      EVENT_LOG \<mapsto> handle_event_log,
      EVENT_LOG_END \<mapsto> handle_event_log_end,
      RESPONSE_CURRENT_TIME \<mapsto> handle_response_current_time,
      BEACON \<mapsto> handle_beacon]"

text \<open>
  \<open>AltairServer::handle_response(response)\<close> in two steps. \<open>dispatch_response\<close> is the
  function up to the call of the handler: the size check, the rewrite of a 9-byte frame
  (\<open>new_response.push_back(10)\<close>, then the copy of \<open>response\<close>), the type at index 1, the
  id at index 2 and the lookup in the table. Its result names the handler, the buffer
  and the id of the call \<open>handler_it->second(response, responseId)\<close>, which
  \<open>handle_response\<close> then makes.
\<close>

datatype dispatch = Invalid_size | Unknown_type u8 | Invoke ResponseHandler "u8 list" u8

definition dispatch_response :: "u8 list \<Rightarrow> dispatch" where
  "dispatch_response response =
     (if length response < unat PACKET_HEADER_SIZE then Invalid_size
      else
        let response1 = (if length response = 9 then 10 # response else response);
            responseType = response1 ! 1;
            responseId = response1 ! 2
        in case m_response_handlers responseType of
             Some handler \<Rightarrow> Invoke handler response1 responseId
           | None \<Rightarrow> Unknown_type responseType)"

definition handle_response :: "env \<Rightarrow> u8 list \<Rightarrow> AltairServer \<Rightarrow> error + AltairServer" where
  "handle_response e response s =
     (case dispatch_response response of
        Invalid_size \<Rightarrow> Inr s
      | Unknown_type t \<Rightarrow> Inr s
      | Invoke handler response1 responseId \<Rightarrow> handler e response1 responseId s)"

section \<open>The listen loop (AltairServer::listen)\<close>

text \<open>
  \<open>::isalpha\<close> in the "C" locale, which the program never changes: the ASCII letters.
\<close>

definition isalpha :: "u8 \<Rightarrow> bool" where
  "isalpha c = ((0x41 \<le> c \<and> c \<le> 0x5A) \<or> (0x61 \<le> c \<and> c \<le> 0x7A))"

text \<open>
  One pass of the loop body after a byte \<open>c\<close> was received, on the accumulator
  \<open>response\<close>: the new accumulator and what the pass emits. \<open>Debug_text\<close> is the line
  printed when it is longer than one byte, \<open>Binary_frame\<close> the vector handed to
  \<open>handle_response\<close>.
\<close>

datatype frame_event = No_event | Debug_text "u8 list" | Binary_frame "u8 list"

definition frame_reader :: "u8 list \<Rightarrow> u8 \<Rightarrow> u8 list \<times> frame_event" where
  "frame_reader response c =
     (if c = 0 \<and> response = [] then (response, No_event)
      else
        let response1 = response @ [c] in
        if isalpha (response1 ! 0) \<or> response1 ! 0 = 0x0A then
          (if c = 0x0A then ([], Debug_text response1) else (response1, No_event))
        else
          (if c = END_MARK then
             (if length response1 \<ge> unat (response1 ! 0) then ([], Binary_frame response1)
              else (response1, No_event))
           else (response1, No_event)))"

text \<open>
  What \<open>m_connection->receive(char_buffer, 1)\<close> gave: nothing (a return value of zero or
  less) or one byte. \<open>listen_step\<close> is one iteration of \<open>while (true)\<close> on the
  accumulator and the server; \<open>listen\<close> runs the iterations for a finite run of
  receive results (the loop itself never ends).
\<close>

datatype rx = Rx_none | Rx_byte u8

definition listen_step ::
  "env \<Rightarrow> rx \<Rightarrow> u8 list \<times> AltairServer \<Rightarrow> error + u8 list \<times> AltairServer" where
  "listen_step e r st =
     (case r of
        Rx_none \<Rightarrow> Inr st
      | Rx_byte c \<Rightarrow>
          (case frame_reader (fst st) c of
             (response1, Binary_frame frame) \<Rightarrow>
               bnd (handle_response e frame (snd st)) (\<lambda>s1. Inr (response1, s1))
           | (response1, ev) \<Rightarrow> Inr (response1, snd st)))"


section \<open>Operator commands (AltairServer::handle_request)\<close>

text \<open>
  \<open>std::istringstream\<close> as the characters not yet read and the two state bits the code
  depends on. Extraction follows the C++ standard library (since C++11) in the "C"
  locale: the sentry fails, setting \<open>failbit\<close>, when the stream is not good, and when
  only white space is left; a failed sentry stores nothing; an arithmetic extraction
  whose field holds no digit stores 0 and sets \<open>failbit\<close>; one out of range stores the
  nearest bound and sets \<open>failbit\<close>. \<open>eofbit\<close> is set when the end of the buffer is hit.
\<close>

definition isspace :: "char \<Rightarrow> bool" where
  "isspace c = (c \<in> set [CHR 0x20, CHR 0x09, CHR 0x0A, CHR 0x0B, CHR 0x0C, CHR 0x0D])"

definition isdigit :: "char \<Rightarrow> bool" where
  "isdigit c = (c \<in> set ''0123456789'')"

record istringstream =
  buf :: string
  failbit :: bool
  eofbit :: bool

definition istringstream_of :: "string \<Rightarrow> istringstream" where
  "istringstream_of message = \<lparr>buf = message, failbit = False, eofbit = False\<rparr>"

definition good :: "istringstream \<Rightarrow> bool" where
  "good iss = (\<not> failbit iss \<and> \<not> eofbit iss)"

definition sentry :: "istringstream \<Rightarrow> bool \<times> istringstream" where
  "sentry iss =
     (if \<not> good iss then (False, iss\<lparr>failbit := True\<rparr>)
      else
        let r = dropWhile isspace (buf iss) in
        if r = [] then (False, iss\<lparr>buf := [], failbit := True, eofbit := True\<rparr>)
        else (True, iss\<lparr>buf := r\<rparr>))"

text \<open>\<open>iss >> str\<close> for a \<open>std::string\<close>; the second argument is \<open>str\<close> before.\<close>

definition extract_string :: "istringstream \<Rightarrow> string \<Rightarrow> string \<times> istringstream" where
  "extract_string iss str =
     (case sentry iss of
        (False, iss1) \<Rightarrow> (str, iss1)
      | (True, iss1) \<Rightarrow>
          let w = takeWhile (\<lambda>c. \<not> isspace c) (buf iss1);
              r = dropWhile (\<lambda>c. \<not> isspace c) (buf iss1)
          in (w, iss1\<lparr>buf := r, eofbit := (r = [])\<rparr>))"

definition scan_sign :: "string \<Rightarrow> bool \<times> string" where
  "scan_sign cs =
     (case cs of
        [] \<Rightarrow> (False, [])
      | c # r \<Rightarrow> if c = CHR ''-'' then (True, r) else if c = CHR ''+'' then (False, r)
                 else (False, cs))"

definition dec_value :: "string \<Rightarrow> nat" where
  "dec_value ds = foldl (\<lambda>n c. 10 * n + (of_char c - 48)) 0 ds"

text \<open>\<open>iss >> v\<close> for an \<open>int\<close> (32 bits); the second argument is \<open>v\<close> before.\<close>

definition extract_int :: "istringstream \<Rightarrow> int \<Rightarrow> int \<times> istringstream" where
  "extract_int iss v =
     (case sentry iss of
        (False, iss1) \<Rightarrow> (v, iss1)
      | (True, iss1) \<Rightarrow>
          let (negative, cs) = scan_sign (buf iss1);
              ds = takeWhile isdigit cs;
              r = dropWhile isdigit cs;
              iss2 = iss1\<lparr>buf := r, eofbit := (r = [])\<rparr>;
              n = int (dec_value ds)
          in if ds = [] then (0, iss2\<lparr>failbit := True\<rparr>)
             else if negative \<and> 2 ^ 31 < n then (- (2 ^ 31), iss2\<lparr>failbit := True\<rparr>)
             else if \<not> negative \<and> 2 ^ 31 - 1 < n then (2 ^ 31 - 1, iss2\<lparr>failbit := True\<rparr>)
             else (if negative then - n else n, iss2))"

text \<open>
  \<open>iss >> v\<close> for a \<open>uint32_t\<close>; a field with a minus sign whose digits are in range is
  stored negated modulo \<open>2^32\<close>, as libstdc++ does.
\<close>

definition extract_u32 :: "istringstream \<Rightarrow> u32 \<Rightarrow> u32 \<times> istringstream" where
  "extract_u32 iss v =
     (case sentry iss of
        (False, iss1) \<Rightarrow> (v, iss1)
      | (True, iss1) \<Rightarrow>
          let (negative, cs) = scan_sign (buf iss1);
              ds = takeWhile isdigit cs;
              r = dropWhile isdigit cs;
              iss2 = iss1\<lparr>buf := r, eofbit := (r = [])\<rparr>;
              n = int (dec_value ds)
          in if ds = [] then (0, iss2\<lparr>failbit := True\<rparr>)
             else if 2 ^ 32 - 1 < n then (- 1, iss2\<lparr>failbit := True\<rparr>)
             else (if negative then word_of_int (- n) else word_of_int n, iss2))"

text \<open>\<open>std::to_string\<close> on an integer: its decimal digits, with a minus sign if negative.\<close>

function digits10 :: "nat \<Rightarrow> string" where
  "digits10 n =
     (if n < 10 then [''0123456789'' ! n]
      else digits10 (n div 10) @ [''0123456789'' ! (n mod 10)])"
  by pat_completeness auto
termination
  by (relation "measure (\<lambda>n. n)") auto

declare digits10.simps [simp del]

definition to_string :: "int \<Rightarrow> string" where
  "to_string i = (if i < 0 then CHR ''-'' # digits10 (nat (- i)) else digits10 (nat i))"

text \<open>The \<open>switch\<close> on \<open>m_latest_data.mode\<close>, and the two bytes of the degree sign.\<close>

definition mode_name :: "u8 \<Rightarrow> string" where
  "mode_name m = (if m = 1 then ''Error'' else if m = 2 then ''Safe''
                  else if m = 3 then ''OK'' else ''Unknown'')"

definition degree_sign :: string where
  "degree_sign = [CHR 0xC2, CHR 0xB0]"

text \<open>
  \<open>AltairServer::handle_request(message, client)\<close>. The branches are in the order of the
  source. \<open>update_light\<close> alone does not test \<open>iss.fail()\<close>. The branch of
  \<open>update_voltage\<close> parses and compares \<open>float\<close> values and is outside the model.
\<close>

definition handle_request :: "env \<Rightarrow> string \<Rightarrow> client \<Rightarrow> AltairServer \<Rightarrow> error + AltairServer" where
  "handle_request e message c s =
     (let (command, iss) = extract_string (istringstream_of message) [] in
      if command = ''get_sensor_data'' then
        Inr (sendMessage c
              (''Temperature: '' @ to_string (uint (temp (m_latest_data s))) @ degree_sign @ ''C, ''
               @ ''Humidity: '' @ to_string (uint (humid (m_latest_data s))) @ ''%, ''
               @ ''Light: '' @ to_string (uint (light (m_latest_data s))) @ ''%, ''
               @ ''Voltage: '' @ float_to_stream e (voltage (m_latest_data s)) @ ''V, ''
               @ ''Mode: '' @ mode_name (mode (m_latest_data s))) s)
      else if command = ''get_recent_sensor_data'' then
        (if timestamp (m_latest_data s) > 0 then
           let end_time = timestamp (m_latest_data s);
               start_time = (if end_time > 50 then end_time - 50 else 0)
           in bnd (get_sensor_in_range e start_time end_time c s) (\<lambda>s1.
              Inr (sendMessage c ''Retrieving sensor data from the last minute...'' s1))
         else Inr (sendMessage c ''Error: No sensor data available yet. Wait for a beacon.'' s))
      else if command = ''update_light'' then
        (let (light_value, iss1) = extract_int iss (uninit_int e) in
         if light_value \<ge> 0 \<and> light_value \<le> 100 then
           bnd (update_light e (word_of_int light_value) s) (\<lambda>s1.
           Inr (sendMessage c (''Light updated to '' @ to_string light_value @ ''%'') s1))
         else Inr (sendMessage c ''Error: Light value must be between 0 and 100'' s))
      else if command = ''update_min_temp'' then
        (let (min_temp, iss1) = extract_int iss (uninit_int e) in
         if failbit iss1 then Inr (sendMessage c ''Error: Invalid temperature value'' s)
         else
           bnd (update_min_temp e (word_of_int min_temp) s) (\<lambda>s1.
           Inr (sendMessage c (''Minimum temperature updated to '' @ to_string min_temp
                               @ degree_sign @ ''C'') s1)))
      else if command = ''update_max_temp'' then
        (let (max_temp, iss1) = extract_int iss (uninit_int e) in
         if failbit iss1 then Inr (sendMessage c ''Error: Invalid temperature value'' s)
         else
           bnd (update_max_temp e (word_of_int max_temp) s) (\<lambda>s1.
           Inr (sendMessage c (''Maximum temperature updated to '' @ to_string max_temp
                               @ degree_sign @ ''C'') s1)))
      else if command = ''update_humidity'' then
        (let (humidity, iss1) = extract_int iss (uninit_int e) in
         if failbit iss1 then Inr (sendMessage c ''Error: Invalid humidity value'' s)
         else if humidity \<ge> 0 \<and> humidity \<le> 100 then
           bnd (update_humidity e (word_of_int humidity) s) (\<lambda>s1.
           Inr (sendMessage c (''Humidity updated to '' @ to_string humidity @ ''%'') s1))
         else Inr (sendMessage c ''Error: Humidity value must be between 0 and 100'' s))
      else if command = ''update_voltage'' then Inl Unmodelled
      else if command = ''get_sensor_logs'' then
        (let (start, iss1) = extract_u32 iss (uninit_u32 e);
             (end, iss2) = extract_u32 iss1 (uninit_u32 e)
         in if failbit iss2 then
              Inr (sendMessage c
                (''Error: Invalid timestamp values. ''
                 @ ''Format: get_logs <start_timestamp> <end_timestamp>'') s)
            else
              bnd (get_sensor_in_range e start end c s) (\<lambda>s1.
              Inr (sendMessage c (''Requested logs between '' @ to_string (uint start)
                                  @ '' and '' @ to_string (uint end) @ ''. Processing...'') s1)))
      else if command = ''get_events_logs'' then
        (let (start, iss1) = extract_u32 iss (uninit_u32 e);
             (end, iss2) = extract_u32 iss1 (uninit_u32 e)
         in if failbit iss2 then
              Inr (sendMessage c
                (''Error: Invalid timestamp values. ''
                 @ ''Format: get_events_logs <start_timestamp> <end_timestamp>'') s)
            else
              bnd (get_event_in_range e start end c s) (\<lambda>s1.
              Inr (sendMessage c (''Requested logs between '' @ to_string (uint start)
                                  @ '' and '' @ to_string (uint end) @ ''. Processing...'') s1)))
      else if command = ''get_current_time'' then get_current_time e c s
      else if command = ''set_time'' then
        (let (new_time, iss1) = extract_u32 iss (uninit_u32 e) in
         if failbit iss1 then
           Inr (sendMessage c ''Error: Invalid time value. Format: set_time <unix_timestamp>'' s)
         else if timestamp (m_latest_data s) > 0 \<and> new_time < timestamp (m_latest_data s) then
           Inr (sendMessage c
                 (''Error: Cannot set time before the latest sensor data timestamp (''
                  @ to_string (uint (timestamp (m_latest_data s))) @ '')'') s)
         else
           bnd (send_custom_time e new_time s) (\<lambda>s1.
           Inr (sendMessage c ([CHR 0x0A] @ ''Set custom time to:'' @ format_timestamp e new_time
                               @ [CHR 0x0A]) s1)))
      else if command = ''help'' then Inr (sendMessage c (help_message e) s)
      else
        Inr (sendMessage c (''Unknown command: '' @ command
                            @ ''. Type '' @ [CHR 0x27] @ ''help'' @ [CHR 0x27]
                            @ '' for available commands.'') s))"

section \<open>Concrete values for evaluation\<close>

definition reading :: "u32 \<Rightarrow> u8 \<Rightarrow> SensorData" where
  "reading t x = \<lparr>timestamp = t, temp = x, humid = 45, light = 50, mode = 3, voltage = 0\<rparr>"

definition s0 :: AltairServer where
  "s0 = \<lparr>m_latest_data = reading 0 0, current_id = 0, m_request_clients = Map.empty,
         m_sensor_data = [], link_sent = [], client_sent = []\<rparr>"

definition e0 :: env where
  "e0 = \<lparr>uninit_buffer = (\<lambda>i. 0xAA), uninit_sensor = reading 7 7,
         uninit_event = \<lparr>event_timestamp = 0, event = 0\<rparr>, uninit_int = 0, uninit_u32 = 0,
         now = 1000,
         format_timestamp = (\<lambda>t. ''t''), sensor_data_to_string = (\<lambda>d. ''d''),
         event_data_to_string = (\<lambda>d. ''e''), float_to_stream = (\<lambda>d. ''f''),
         help_message = ''help''\<rparr>"


section \<open>Properties of the packet parser\<close>

lemma at_in_range: "i < length v \<Longrightarrow> at v i = Inr (v ! i)"
  by (simp add: at_def)

lemma at_out_of_range: "length v \<le> i \<Longrightarrow> at v i = Inl OutOfBounds"
  by (simp add: at_def)

lemma read_le32_in_range:
  "idx + 3 < length v \<Longrightarrow>
   read_le32 v idx = Inr (le32 (v ! idx) (v ! (idx + 1)) (v ! (idx + 2)) (v ! (idx + 3)))"
  by (simp add: read_le32_def bnd_def at_def)

lemma read_le32_out_of_range:
  "length v \<le> idx + 3 \<Longrightarrow> read_le32 v idx = Inl OutOfBounds"
  by (simp add: read_le32_def bnd_def at_def)

lemma parse_sensor_data_empty: "parse_sensor_data [] data = Inr data"
  by (simp add: parse_sensor_data_def)

lemma parse_sensor_data_short:
  assumes "response \<noteq> []" and "length response < 12"
  shows "parse_sensor_data response data = Inl OutOfBounds"
proof -
  have v: "read_le32 response 8 = Inl OutOfBounds"
    using assms(2) by (intro read_le32_out_of_range) simp
  have ne: "length response \<noteq> 0"
    using assms(1) by simp
  show ?thesis
    using ne by (simp add: parse_sensor_data_def Let_def v bnd_def at_def)
qed

lemma parse_sensor_data_long:
  assumes "12 \<le> length response"
  shows "parse_sensor_data response data =
           Inr (data\<lparr>temp := response ! 4, humid := response ! 5, light := response ! 6,
                      mode := response ! 7,
                      voltage := le32 (response ! 8) (response ! 9) (response ! 10) (response ! 11),
                      timestamp := (if 16 \<le> length response
                                    then le32 (response ! 12) (response ! 13)
                                              (response ! 14) (response ! 15)
                                    else timestamp data)\<rparr>)"
proof -
  have v: "read_le32 response 8 =
             Inr (le32 (response ! 8) (response ! 9) (response ! 10) (response ! 11))"
    using assms read_le32_in_range [of 8 response] by simp
  have t: "16 \<le> length response \<Longrightarrow> read_le32 response 12 =
             Inr (le32 (response ! 12) (response ! 13) (response ! 14) (response ! 15))"
    using read_le32_in_range [of 12 response] by simp
  have ne: "length response \<noteq> 0"
    using assms by auto
  show ?thesis
  proof (cases "16 \<le> length response")
    case True
    then show ?thesis
      using assms ne by (simp add: parse_sensor_data_def Let_def v t bnd_def at_def)
  next
    case False
    then show ?thesis
      using assms ne by (simp add: parse_sensor_data_def Let_def v bnd_def at_def)
  qed
qed

text \<open>
  Claim C10. \<open>parse_sensor_data\<close> reads out of bounds exactly on the non-empty inputs
  shorter than 12 bytes. On the empty input it returns the record untouched. On an input
  of 12 bytes or more every read is in bounds, \<open>temp\<close>, \<open>humid\<close>, \<open>light\<close>, \<open>mode\<close> and
  \<open>voltage\<close> are written from offsets 4 to 11, and \<open>timestamp\<close> is written (from offsets
  12 to 15) only when the input has at least 16 bytes; otherwise it keeps its prior value.
\<close>

theorem parse_sensor_data_bounds:
  "parse_sensor_data response data =
     (if response = [] then Inr data
      else if length response < 12 then Inl OutOfBounds
      else Inr (data\<lparr>temp := response ! 4, humid := response ! 5, light := response ! 6,
                      mode := response ! 7,
                      voltage := le32 (response ! 8) (response ! 9) (response ! 10) (response ! 11),
                      timestamp := (if 16 \<le> length response
                                    then le32 (response ! 12) (response ! 13)
                                              (response ! 14) (response ! 15)
                                    else timestamp data)\<rparr>))"
proof (cases "response = []")
  case True
  then show ?thesis by (simp add: parse_sensor_data_empty)
next
  case ne: False
  show ?thesis
  proof (cases "length response < 12")
    case True
    with ne show ?thesis by (simp add: parse_sensor_data_short)
  next
    case False
    then have "12 \<le> length response" by simp
    from parse_sensor_data_long [OF this] ne False show ?thesis by simp
  qed
qed

section \<open>Properties of the sensor index\<close>

lemma bsearch_0: "bsearch p xs first 0 = first"
  by (subst bsearch.simps) simp

lemma bsearch_right:
  "len \<noteq> 0 \<Longrightarrow> p (xs ! (first + len div 2)) \<Longrightarrow>
   bsearch p xs first len = bsearch p xs (first + len div 2 + 1) (len - len div 2 - 1)"
  by (subst bsearch.simps) (simp add: Let_def)

lemma bsearch_left:
  "len \<noteq> 0 \<Longrightarrow> \<not> p (xs ! (first + len div 2)) \<Longrightarrow>
   bsearch p xs first len = bsearch p xs first (len div 2)"
  by (subst bsearch.simps) (simp add: Let_def)

lemma bsearch_bounds:
  "first \<le> bsearch p xs first len \<and> bsearch p xs first len \<le> first + len"
proof (induction p xs first len rule: bsearch.induct)
  case (1 p xs first len)
  show ?case
  proof (cases "len = 0")
    case True
    then show ?thesis by (simp add: bsearch_0)
  next
    case False
    then have half: "len div 2 < len" by simp
    show ?thesis
    proof (cases "p (xs ! (first + len div 2))")
      case True
      have ih: "first + len div 2 + 1 \<le> bsearch p xs (first + len div 2 + 1) (len - len div 2 - 1)
        \<and> bsearch p xs (first + len div 2 + 1) (len - len div 2 - 1)
            \<le> first + len div 2 + 1 + (len - len div 2 - 1)"
        using 1(1) [OF False refl refl True] .
      have eq: "first + len div 2 + 1 + (len - len div 2 - 1) = first + len"
        using half by arith
      show ?thesis
        unfolding bsearch_right [where p=p and xs=xs and first=first and len=len, OF False True] using ih eq by arith
    next
      case nt: False
      have ih: "first \<le> bsearch p xs first (len div 2)
        \<and> bsearch p xs first (len div 2) \<le> first + len div 2"
        using 1(2) [OF False refl refl nt] .
      show ?thesis
        unfolding bsearch_left [where p=p and xs=xs and first=first and len=len, OF False nt] using ih half by arith
    qed
  qed
qed

lemma bsearch_partitioned:
  assumes "\<forall>i<length xs. p (xs ! i) = (i < k)"
    and "first + len \<le> length xs" and "first \<le> k" and "k \<le> first + len"
  shows "bsearch p xs first len = k"
  using assms
proof (induction p xs first len rule: bsearch.induct)
  case (1 p xs first len)
  show ?case
  proof (cases "len = 0")
    case True
    with 1(5,6) show ?thesis by (simp add: bsearch_0)
  next
    case False
    then have half: "len div 2 < len" by simp
    let ?m = "first + len div 2"
    have m: "?m < length xs" using half 1(4) by arith
    show ?thesis
    proof (cases "p (xs ! ?m)")
      case True
      then have mk: "?m < k" using 1(3) m by simp
      have "bsearch p xs (?m + 1) (len - len div 2 - 1) = k"
      proof (rule 1(1) [OF False refl refl True 1(3)])
        show "?m + 1 + (len - len div 2 - 1) \<le> length xs" using half 1(4) by arith
        show "?m + 1 \<le> k" using mk by arith
        show "k \<le> ?m + 1 + (len - len div 2 - 1)" using half 1(6) by arith
      qed
      then show ?thesis
        unfolding bsearch_right [where p=p and xs=xs and first=first and len=len, OF False True] .
    next
      case nt: False
      then have km: "k \<le> ?m" using 1(3) m by auto
      have "bsearch p xs first (len div 2) = k"
      proof (rule 1(2) [OF False refl refl nt 1(3)])
        show "first + len div 2 \<le> length xs" using m by arith
        show "first \<le> k" by (rule 1(5))
        show "k \<le> first + len div 2" by (rule km)
      qed
      then show ?thesis
        unfolding bsearch_left [where p=p and xs=xs and first=first and len=len, OF False nt] .
    qed
  qed
qed

lemma sorted_filter_prefix:
  assumes "index_sorted v" and "\<And>a b. a < b \<Longrightarrow> P b \<Longrightarrow> P a"
  shows "take (length (filter (\<lambda>a. P (timestamp a)) v)) v = filter (\<lambda>a. P (timestamp a)) v
       \<and> drop (length (filter (\<lambda>a. P (timestamp a)) v)) v = filter (\<lambda>a. \<not> P (timestamp a)) v"
  using assms(1) unfolding index_sorted_def
proof (induction v)
  case Nil
  then show ?case by simp
next
  case (Cons a v)
  show ?case
  proof (cases "P (timestamp a)")
    case True
    with Cons show ?thesis by simp
  next
    case False
    have "\<forall>b\<in>set v. \<not> P (timestamp b)"
    proof
      fix b assume "b \<in> set v"
      then have "timestamp a < timestamp b" using Cons.prems by auto
      then show "\<not> P (timestamp b)" using assms(2) False by blast
    qed
    then have "filter (\<lambda>a. P (timestamp a)) v = []" and "filter (\<lambda>a. \<not> P (timestamp a)) v = v"
      by (simp_all add: filter_empty_conv filter_id_conv)
    with False show ?thesis by simp
  qed
qed

lemma sorted_partitioned:
  assumes "index_sorted v" and "\<And>a b. a < b \<Longrightarrow> P b \<Longrightarrow> P a"
  shows "\<forall>i<length v. P (timestamp (v ! i)) = (i < length (filter (\<lambda>a. P (timestamp a)) v))"
proof (intro allI impI)
  fix i assume i: "i < length v"
  let ?k = "length (filter (\<lambda>a. P (timestamp a)) v)"
  have "take ?k v = filter (\<lambda>a. P (timestamp a)) v
      \<and> drop ?k v = filter (\<lambda>a. \<not> P (timestamp a)) v"
    by (rule sorted_filter_prefix [OF assms(1)]) (rule assms(2))
  then have tk: "take ?k v = filter (\<lambda>a. P (timestamp a)) v"
    and dr: "drop ?k v = filter (\<lambda>a. \<not> P (timestamp a)) v" by simp_all
  show "P (timestamp (v ! i)) = (i < ?k)"
  proof (cases "i < ?k")
    case True
    then have "v ! i = take ?k v ! i" by simp
    also have "\<dots> \<in> set (take ?k v)" using True i by (intro nth_mem) simp
    finally have "v ! i \<in> set (filter (\<lambda>a. P (timestamp a)) v)" using tk by simp
    with True show ?thesis by simp
  next
    case False
    then have "v ! i = drop ?k v ! (i - ?k)" using i by simp
    also have "\<dots> \<in> set (drop ?k v)" using False i by (intro nth_mem) simp
    finally have "v ! i \<in> set (filter (\<lambda>a. \<not> P (timestamp a)) v)" using dr by simp
    with False show ?thesis by simp
  qed
qed

lemma lower_bound_sorted:
  assumes "index_sorted v"
  shows "lower_bound v t = length (filter (\<lambda>a. timestamp a < t) v)"
  unfolding lower_bound_def
proof (rule bsearch_partitioned)
  show "\<forall>i<length v. (timestamp (v ! i) < t) = (i < length (filter (\<lambda>a. timestamp a < t) v))"
    by (rule sorted_partitioned [OF assms, where P = "\<lambda>x. x < t"]) simp
qed simp_all

lemma upper_bound_sorted:
  assumes "index_sorted v"
  shows "upper_bound v t = length (filter (\<lambda>a. \<not> t < timestamp a) v)"
  unfolding upper_bound_def
proof (rule bsearch_partitioned)
  show "\<forall>i<length v. (\<not> t < timestamp (v ! i)) = (i < length (filter (\<lambda>a. \<not> t < timestamp a) v))"
    by (rule sorted_partitioned [OF assms, where P = "\<lambda>x. \<not> t < x"]) simp
qed simp_all

lemma lower_bound_le_length: "lower_bound v t \<le> length v"
  using bsearch_bounds [of 0 "\<lambda>a. timestamp a < t" v "length v"] by (simp add: lower_bound_def)

lemma upper_bound_le_length: "upper_bound v t \<le> length v"
  using bsearch_bounds [of 0 "\<lambda>a. \<not> t < timestamp a" v "length v"] by (simp add: upper_bound_def)

lemma lower_bound_split:
  assumes "index_sorted v"
  shows "take (lower_bound v t) v = filter (\<lambda>a. timestamp a < t) v"
    and "drop (lower_bound v t) v = filter (\<lambda>a. \<not> timestamp a < t) v"
  using sorted_filter_prefix [OF assms, where P = "\<lambda>x. x < t"] lower_bound_sorted [OF assms, of t]
  by simp_all

lemma upper_bound_split:
  assumes "index_sorted v"
  shows "take (upper_bound v t) v = filter (\<lambda>a. \<not> t < timestamp a) v"
    and "drop (upper_bound v t) v = filter (\<lambda>a. t < timestamp a) v"
  using sorted_filter_prefix [OF assms, where P = "\<lambda>x. \<not> t < x"] upper_bound_sorted [OF assms, of t]
  by simp_all

lemma lower_bound_duplicate:
  assumes "index_sorted v" and "timestamp r \<in> timestamp ` set v"
  shows "lower_bound v (timestamp r) \<noteq> length v
       \<and> timestamp (v ! lower_bound v (timestamp r)) = timestamp r"
proof -
  let ?t = "timestamp r" and ?k = "lower_bound v (timestamp r)"
  from assms(2) obtain a where a: "a \<in> set v" "timestamp a = ?t" by auto
  then have "a \<in> set (filter (\<lambda>a. \<not> timestamp a < ?t) v)" by simp
  then have mem: "a \<in> set (drop ?k v)" using lower_bound_split(2) [OF assms(1)] by simp
  then have ne: "drop ?k v \<noteq> []" by auto
  then have lt: "?k < length v" by simp
  have hd_in: "v ! ?k \<in> set (filter (\<lambda>a. \<not> timestamp a < ?t) v)"
    using lower_bound_split(2) [OF assms(1), of ?t] lt
    by (metis Cons_nth_drop_Suc list.set_intros(1))
  have split: "drop ?k v = v ! ?k # drop (Suc ?k) v"
    using lt by (simp add: Cons_nth_drop_Suc)
  have "sorted_wrt (<) (map timestamp (drop ?k v))"
    using assms(1) unfolding index_sorted_def by (simp add: drop_map [symmetric])
  then have "\<forall>x\<in>set (drop (Suc ?k) v). timestamp (v ! ?k) < timestamp x"
    unfolding split by simp
  moreover have "a = v ! ?k \<or> a \<in> set (drop (Suc ?k) v)"
    using mem unfolding split by simp
  ultimately have "timestamp (v ! ?k) \<le> timestamp a"
    by auto
  with hd_in a(2) have "timestamp (v ! ?k) = ?t" by simp
  with lt show ?thesis by simp
qed



lemma insertSensorData_sorted:
  assumes "index_sorted v"
  shows "index_sorted (snd (insertSensorData r v))"
proof (cases "lower_bound v (timestamp r) \<noteq> length v
              \<and> timestamp (v ! lower_bound v (timestamp r)) = timestamp r")
  case True
  then show ?thesis using assms by (simp add: insertSensorData_def)
next
  case False
  let ?t = "timestamp r" and ?k = "lower_bound v (timestamp r)"
  have tk: "take ?k v = filter (\<lambda>a. timestamp a < ?t) v"
    and dr: "drop ?k v = filter (\<lambda>a. \<not> timestamp a < ?t) v"
    using lower_bound_split [OF assms, of ?t] by simp_all
  have no_dup: "\<forall>a\<in>set v. timestamp a \<noteq> ?t"
  proof
    fix a assume "a \<in> set v"
    show "timestamp a \<noteq> ?t"
    proof
      assume "timestamp a = ?t"
      with \<open>a \<in> set v\<close> have "?t \<in> timestamp ` set v" by (metis imageI)
      from lower_bound_duplicate [OF assms this] False show False by simp
    qed
  qed
  have s1: "sorted_wrt (<) (map timestamp (take ?k v))"
    and s2: "sorted_wrt (<) (map timestamp (drop ?k v))"
    using assms unfolding index_sorted_def
    by (simp_all add: take_map [symmetric] drop_map [symmetric])
  have below: "\<forall>a\<in>set (take ?k v). timestamp a < ?t" unfolding tk by simp
  have above: "\<forall>a\<in>set (drop ?k v). ?t < timestamp a"
    unfolding dr using no_dup by auto
  have cross: "\<forall>x\<in>set (take ?k v). \<forall>y\<in>set (drop ?k v). timestamp x < timestamp y"
    using below above by (meson less_trans)
  have "sorted_wrt (<) (map timestamp (take ?k v @ r # drop ?k v))"
    using s1 s2 below above cross by (simp add: sorted_wrt_append)
  then show ?thesis
    using False by (auto simp add: insertSensorData_def index_sorted_def Let_def)
qed

lemma map_nth_upt_slice:
  "u \<le> length v \<Longrightarrow> map (\<lambda>it. v ! it) [l..<u] = drop l (take u v)"
  by (auto simp: list_eq_iff_nth_eq)

lemma getSensorDataInRange_ordered:
  assumes "index_sorted v" and "start_time \<le> end_time"
  shows "getSensorDataInRange start_time end_time v =
           Inr (if v = [] \<or> timestamp (last v) < start_time then None
                else Some (filter (\<lambda>a. start_time \<le> timestamp a \<and> timestamp a \<le> end_time) v))"
proof -
  let ?w = "filter (\<lambda>a. \<not> end_time < timestamp a) v"
  let ?l = "lower_bound v start_time" and ?u = "upper_bound v end_time"
  have sub: "filter (\<lambda>a. timestamp a < start_time) ?w = filter (\<lambda>a. timestamp a < start_time) v"
    using assms(2) by (auto intro: filter_cong)
  have l: "?l = length (filter (\<lambda>a. timestamp a < start_time) ?w)"
    unfolding sub by (rule lower_bound_sorted [OF assms(1)])
  have lu: "?l \<le> ?u"
    unfolding l upper_bound_sorted [OF assms(1)] by (rule length_filter_le)
  have w_sorted: "index_sorted ?w"
    using assms(1) unfolding index_sorted_def
    by (induction v) auto
  have "drop ?l ?w = filter (\<lambda>a. \<not> timestamp a < start_time) ?w"
    unfolding l using sorted_filter_prefix [OF w_sorted, where P = "\<lambda>x. x < start_time"] by simp
  also have "\<dots> = filter (\<lambda>a. start_time \<le> timestamp a \<and> timestamp a \<le> end_time) v"
    by (auto intro: filter_cong)
  finally have slice: "drop ?l (take ?u v) =
      filter (\<lambda>a. start_time \<le> timestamp a \<and> timestamp a \<le> end_time) v"
    using upper_bound_split(1) [OF assms(1), of end_time] by simp
  have "map (\<lambda>it. v ! it) [?l..<?u] = drop ?l (take ?u v)"
    by (rule map_nth_upt_slice) (rule upper_bound_le_length)
  with slice lu show ?thesis
    by (simp add: getSensorDataInRange_def Let_def)
qed



section \<open>Claims on the sensor index\<close>

lemma index_reachable_sorted: "index_reachable v \<Longrightarrow> index_sorted v"
proof (induction rule: index_reachable.induct)
  case reach_empty
  then show ?case by (simp add: index_sorted_def)
next
  case (reach_insert v r)
  then show ?case by (simp add: insertSensorData_sorted)
qed

text \<open>
  Claim C7. \<open>insertSensorData\<close> returns \<open>true\<close> on every input, and when the index is
  sorted by timestamp (its class invariant, which holds of every reachable index) and
  already holds the timestamp of the reading, the index is left as it was.
\<close>

theorem insertSensorData_duplicate:
  "fst (insertSensorData r v) = True
   \<and> (index_sorted v \<and> timestamp r \<in> timestamp ` set v \<longrightarrow> insertSensorData r v = (True, v))"
proof
  show "fst (insertSensorData r v) = True"
    by (simp add: insertSensorData_def Let_def)
next
  show "index_sorted v \<and> timestamp r \<in> timestamp ` set v \<longrightarrow> insertSensorData r v = (True, v)"
  proof
    assume h: "index_sorted v \<and> timestamp r \<in> timestamp ` set v"
    from lower_bound_duplicate [of v r] h show "insertSensorData r v = (True, v)"
      by (simp add: insertSensorData_def)
  qed
qed

theorem insertSensorData_duplicate_witness:
  "index_sorted [reading 10 1, reading 20 2]
   \<and> timestamp (reading 20 99) \<in> timestamp ` set [reading 10 1, reading 20 2]
   \<and> insertSensorData (reading 20 99) [reading 10 1, reading 20 2]
       = (True, [reading 10 1, reading 20 2])"
  using insertSensorData_duplicate [of "reading 20 99" "[reading 10 1, reading 20 2]"]
  by (simp add: index_sorted_def reading_def)

lemma two_readings_reachable: "index_reachable [reading 10 1, reading 20 2]"
proof -
  have a: "snd (insertSensorData (reading 20 2) []) = [reading 20 2]"
    by (simp add: insertSensorData_def lower_bound_def bsearch.simps)
  have b: "snd (insertSensorData (reading 10 1) [reading 20 2]) = [reading 10 1, reading 20 2]"
    by (simp add: insertSensorData_def lower_bound_def bsearch.simps reading_def)
  have "index_reachable [reading 20 2]"
    using reach_insert [OF reach_empty, of "reading 20 2"] a by simp
  from reach_insert [OF this, of "reading 10 1"] b show ?thesis by simp
qed

lemma upper_before_lower_iff:
  assumes "index_sorted v"
  shows "upper_bound v end_time < lower_bound v start_time
         \<longleftrightarrow> (\<exists>a\<in>set v. end_time < timestamp a \<and> timestamp a < start_time)"
proof
  let ?P = "\<lambda>a. \<not> end_time < timestamp a" and ?Q = "\<lambda>a. timestamp a < start_time"
  assume "\<exists>a\<in>set v. end_time < timestamp a \<and> timestamp a < start_time"
  then obtain a where a: "a \<in> set v" "end_time < timestamp a" "timestamp a < start_time"
    by blast
  then have lt: "end_time < start_time" by simp
  have "filter ?P v = filter ?P (filter ?Q v)"
    using lt by (auto intro: filter_cong)
  moreover have "length (filter ?P (filter ?Q v)) < length (filter ?Q v)"
    using a by (intro length_filter_less [where x = a]) simp_all
  ultimately show "upper_bound v end_time < lower_bound v start_time"
    by (simp add: upper_bound_sorted [OF assms] lower_bound_sorted [OF assms])
next
  let ?P = "\<lambda>a. \<not> end_time < timestamp a" and ?Q = "\<lambda>a. timestamp a < start_time"
  assume lt: "upper_bound v end_time < lower_bound v start_time"
  show "\<exists>a\<in>set v. end_time < timestamp a \<and> timestamp a < start_time"
  proof (rule ccontr)
    assume "\<not> (\<exists>a\<in>set v. end_time < timestamp a \<and> timestamp a < start_time)"
    then have "filter ?Q v = filter ?Q (filter ?P v)"
      by (auto intro: filter_cong)
    then have "length (filter ?Q v) \<le> length (filter ?P v)"
      by (metis length_filter_le)
    with lt show False
      by (simp add: upper_bound_sorted [OF assms] lower_bound_sorted [OF assms])
  qed
qed

lemma getSensorDataInRange_throws_iff:
  assumes "index_sorted v"
  shows "getSensorDataInRange start_time end_time v = Inl LengthError
         \<longleftrightarrow> v \<noteq> [] \<and> start_time \<le> timestamp (last v)
             \<and> (\<exists>a\<in>set v. end_time < timestamp a \<and> timestamp a < start_time)"
  using upper_before_lower_iff [OF assms, of end_time start_time]
  by (auto simp: getSensorDataInRange_def Let_def)

text \<open>
  Claim C8. On the index with the timestamps 10 and 20, which two inserts reach, the
  query with \<open>start_time = 20\<close> and \<open>end_time = 5\<close> does not return a slice: \<open>lower\<close> is 1
  and \<open>upper\<close> is 0, and \<open>reserve\<close> throws \<open>std::length_error\<close>.
\<close>

theorem getSensorDataInRange_reversed:
  "index_reachable [reading 10 1, reading 20 2]
   \<and> lower_bound [reading 10 1, reading 20 2] 20 = 1
   \<and> upper_bound [reading 10 1, reading 20 2] 5 = 0
   \<and> getSensorDataInRange 20 5 [reading 10 1, reading 20 2] = Inl LengthError"
  using two_readings_reachable
  by (simp add: getSensorDataInRange_def lower_bound_def upper_bound_def bsearch.simps reading_def)

lemma getSensorDataInRange_nullopt:
  "getSensorDataInRange start_time end_time v = Inr None
   \<longleftrightarrow> v = [] \<or> timestamp (last v) < start_time"
  by (simp add: getSensorDataInRange_def Let_def)

section \<open>Claims on the dispatcher\<close>

lemmas response_type_defs = BEACON_def TIME_SEND_def UPDATE_MIN_TEMP_def UPDATE_HUMIDITY_def
  UPDATE_VOLTAGE_def UPDATE_LIGHT_def EVENT_def ACK_def NACK_def UPDATE_MAX_TEMP_def
  TIME_REQUEST_def SENSOR_LOG_def TOTAL_LOGS_def REQUEST_SENSOR_LOGS_def EVENT_LOG_def
  EVENT_LOG_END_def REQUEST_EVENT_LOG_def REQUEST_CURRENT_TIME_def RESPONSE_CURRENT_TIME_def

lemma dispatch_response_Invoke:
  assumes "dispatch_response response = Invoke handler frame rid"
  shows "unat PACKET_HEADER_SIZE \<le> length response
       \<and> frame = (if length response = 9 then 10 # response else response)
       \<and> m_response_handlers (frame ! 1) = Some handler \<and> rid = frame ! 2"
  using assms
  by (auto simp: dispatch_response_def Let_def split: if_splits option.splits)

lemma m_response_handlers_dom:
  "m_response_handlers t \<noteq> None
   \<longleftrightarrow> t \<in> {0x01, 0x07, 0x08, 0x09, 0x10, 0x11, 0x12, 0x14, 0x15, 0x18}"
  by (simp add: m_response_handlers_def response_type_defs)

lemma dispatch_response_known:
  assumes "5 \<le> length response"
    and "m_response_handlers ((if length response = 9 then 10 # response else response) ! 1)
           = Some handler"
  shows "dispatch_response response =
           Invoke handler (if length response = 9 then 10 # response else response)
             ((if length response = 9 then 10 # response else response) ! 2)"
  using assms by (simp add: dispatch_response_def PACKET_HEADER_SIZE_def Let_def)

lemma dispatch_response_unknown:
  assumes "5 \<le> length response"
    and "m_response_handlers ((if length response = 9 then 10 # response else response) ! 1)
           = None"
  shows "dispatch_response response =
           Unknown_type ((if length response = 9 then 10 # response else response) ! 1)"
  using assms by (simp add: dispatch_response_def PACKET_HEADER_SIZE_def Let_def)

text \<open>
  Claim C1. Every inbound frame of at least 5 bytes whose type byte has a handler in the
  table is dispatched: \<open>handle_response\<close> is the call of that handler. For a frame of
  exactly 9 bytes the buffer of the call is the frame with the byte 10 put in front (it
  has 10 bytes, byte 0 is 10 and bytes 1 to 9 are the original frame); for every other
  length the buffer is the frame unchanged. The type is byte 1 and the id byte 2 of that
  buffer, and no other call is made.
\<close>

theorem handle_response_dispatch:
  assumes "5 \<le> length response"
    and "frame = (if length response = 9 then 10 # response else response)"
  shows "(\<forall>handler. m_response_handlers (frame ! 1) = Some handler \<longrightarrow>
            dispatch_response response = Invoke handler frame (frame ! 2)
            \<and> handle_response e response s = handler e frame (frame ! 2) s)
       \<and> (frame ! 1 \<in> {0x01, 0x07, 0x08, 0x09, 0x10, 0x11, 0x12, 0x14, 0x15, 0x18} \<longrightarrow>
            (\<exists>handler. dispatch_response response = Invoke handler frame (frame ! 2)))
       \<and> (\<forall>handler f rid. dispatch_response response = Invoke handler f rid \<longrightarrow>
            f = frame \<and> rid = frame ! 2 \<and> m_response_handlers (frame ! 1) = Some handler)
       \<and> (length response = 9 \<longrightarrow>
            length frame = 10 \<and> frame ! 0 = 10 \<and> (\<forall>i<9. frame ! (i + 1) = response ! i))
       \<and> (length response \<noteq> 9 \<longrightarrow> frame = response)"
proof -
  have known: "dispatch_response response = Invoke handler frame (frame ! 2)"
    if "m_response_handlers (frame ! 1) = Some handler" for handler
    using dispatch_response_known [OF assms(1), of handler] that
    unfolding assms(2) by simp
  have a: "\<forall>handler. m_response_handlers (frame ! 1) = Some handler \<longrightarrow>
            dispatch_response response = Invoke handler frame (frame ! 2)
            \<and> handle_response e response s = handler e frame (frame ! 2) s"
  proof (intro allI impI)
    fix handler assume "m_response_handlers (frame ! 1) = Some handler"
    from known [OF this]
    show "dispatch_response response = Invoke handler frame (frame ! 2)
            \<and> handle_response e response s = handler e frame (frame ! 2) s"
      by (simp add: handle_response_def)
  qed
  have b: "frame ! 1 \<in> {0x01, 0x07, 0x08, 0x09, 0x10, 0x11, 0x12, 0x14, 0x15, 0x18} \<longrightarrow>
            (\<exists>handler. dispatch_response response = Invoke handler frame (frame ! 2))"
  proof
    assume "frame ! 1 \<in> {0x01, 0x07, 0x08, 0x09, 0x10, 0x11, 0x12, 0x14, 0x15, 0x18}"
    then have "m_response_handlers (frame ! 1) \<noteq> None"
      by (simp only: m_response_handlers_dom)
    then obtain handler where "m_response_handlers (frame ! 1) = Some handler"
      by (cases "m_response_handlers (frame ! 1)") simp_all
    from known [OF this]
    have "dispatch_response response = Invoke handler frame (frame ! 2)" .
    then show "\<exists>handler. dispatch_response response = Invoke handler frame (frame ! 2)"
      by (intro exI)
  qed
  have c: "\<forall>handler f rid. dispatch_response response = Invoke handler f rid \<longrightarrow>
            f = frame \<and> rid = frame ! 2 \<and> m_response_handlers (frame ! 1) = Some handler"
  proof (intro allI impI)
    fix handler f rid assume "dispatch_response response = Invoke handler f rid"
    from dispatch_response_Invoke [OF this]
    show "f = frame \<and> rid = frame ! 2 \<and> m_response_handlers (frame ! 1) = Some handler"
      unfolding assms(2) by auto
  qed
  have d: "length response = 9 \<longrightarrow>
            length frame = 10 \<and> frame ! 0 = 10 \<and> (\<forall>i<9. frame ! (i + 1) = response ! i)"
    unfolding assms(2) by simp
  have e: "length response \<noteq> 9 \<longrightarrow> frame = response"
    unfolding assms(2) by simp
  from a b c d e show ?thesis by (intro conjI)
qed

theorem handle_response_dispatch_witness:
  "dispatch_response [9, 8, 7, 0, 0x55, 1, 2, 3, 0x55]
     = Invoke handle_nack [10, 9, 8, 7, 0, 0x55, 1, 2, 3, 0x55] 8
   \<and> handle_response e0 [9, 8, 7, 0, 0x55, 1, 2, 3, 0x55] s0
     = handle_nack e0 [10, 9, 8, 7, 0, 0x55, 1, 2, 3, 0x55] 8 s0
   \<and> dispatch_response [5, 0x08, 7, 0, 0x55] = Invoke handle_ack [5, 0x08, 7, 0, 0x55] 7
   \<and> handle_response e0 [5, 0x08, 7, 0, 0x55] s0 = handle_ack e0 [5, 0x08, 7, 0, 0x55] 7 s0"
proof -
  have n: "m_response_handlers ([10, 9, 8, 7, 0, 0x55, 1, 2, 3, 0x55] ! 1) = Some handle_nack"
    and a: "m_response_handlers ([5, 0x08, 7, 0, 0x55] ! 1) = Some handle_ack"
    by (simp_all add: m_response_handlers_def response_type_defs)
  have l9: "5 \<le> length [9, 8, 7, 0, 0x55, 1, 2, 3, 0x55 :: u8]"
    and f9: "[10, 9, 8, 7, 0, 0x55, 1, 2, 3, 0x55 :: u8] =
       (if length [9, 8, 7, 0, 0x55, 1, 2, 3, 0x55 :: u8] = 9
        then 10 # [9, 8, 7, 0, 0x55, 1, 2, 3, 0x55] else [9, 8, 7, 0, 0x55, 1, 2, 3, 0x55])"
    and l5: "5 \<le> length [5, 0x08, 7, 0, 0x55 :: u8]"
    and f5: "[5, 0x08, 7, 0, 0x55 :: u8] =
       (if length [5, 0x08, 7, 0, 0x55 :: u8] = 9
        then 10 # [5, 0x08, 7, 0, 0x55] else [5, 0x08, 7, 0, 0x55])"
    by simp_all
  from handle_response_dispatch [OF l9 f9, of e0 s0, THEN conjunct1, rule_format, OF n]
       handle_response_dispatch [OF l5 f5, of e0 s0, THEN conjunct1, rule_format, OF a]
  show ?thesis by simp
qed

text \<open>
  Claim C2. With a binary frame in progress (the accumulator is not empty and its first
  byte is neither an ASCII letter nor a line feed), a pass of the listen loop on the
  byte \<open>c\<close> emits the frame, hands it to \<open>handle_response\<close> and clears the accumulator
  exactly when \<open>c\<close> is the end marker 0x55 and the length with \<open>c\<close> included has reached
  the first accumulated byte; in every other case, a 0x55 that comes too early
  included, \<open>c\<close> is appended and nothing is emitted.
\<close>

theorem frame_reader_binary:
  assumes "response \<noteq> []" and "\<not> isalpha (response ! 0)" and "response ! 0 \<noteq> 0x0A"
  shows "frame_reader response c =
           (if c = 0x55 \<and> unat (response ! 0) \<le> length response + 1
            then ([], Binary_frame (response @ [c]))
            else (response @ [c], No_event))
       \<and> listen_step e (Rx_byte c) (response, s) =
           (if c = 0x55 \<and> unat (response ! 0) \<le> length response + 1
            then bnd (handle_response e (response @ [c]) s) (\<lambda>s1. Inr ([], s1))
            else Inr (response @ [c], s))"
proof -
  have hd: "(response @ [x]) ! 0 = response ! 0" for x
    using assms(1) by (simp add: nth_append)
  have fr: "frame_reader response c =
           (if c = 0x55 \<and> unat (response ! 0) \<le> length response + 1
            then ([], Binary_frame (response @ [c]))
            else (response @ [c], No_event))"
    using assms by (simp add: frame_reader_def Let_def hd END_MARK_def)
  show ?thesis
    by (simp add: fr listen_step_def)
qed

theorem frame_reader_binary_witness:
  "[9, 8, 7, 0] \<noteq> ([] :: u8 list) \<and> \<not> isalpha ([9, 8, 7, 0] ! 0)
   \<and> [9, 8, 7, 0] ! 0 \<noteq> (0x0A :: u8)
   \<and> frame_reader [9, 8, 7, 0] 0x55 = ([9, 8, 7, 0, 0x55], No_event)
   \<and> frame_reader [5, 8, 7, 0] 0x55 = ([], Binary_frame [5, 8, 7, 0, 0x55])"
proof -
  have a: "\<not> isalpha ([9, 8, 7, 0] ! 0)" "\<not> isalpha ([5, 8, 7, 0] ! 0)"
    by (simp_all add: isalpha_def)
  from frame_reader_binary [of "[9, 8, 7, 0]" "0x55" e0 s0]
       frame_reader_binary [of "[5, 8, 7, 0]" "0x55" e0 s0] a
  show ?thesis by simp
qed

lemma handle_ack_registered:
  assumes "m_request_clients s rid = Some c"
  shows "handle_ack e response rid s =
           Inr (s\<lparr>client_sent := client_sent s @ [(c, ''Sucess operation'')],
                   m_request_clients := (m_request_clients s)(rid := None)\<rparr>)"
  using assms by (simp add: handle_ack_def sendMessage_def)

lemma handle_ack_unregistered:
  assumes "m_request_clients s rid = None"
  shows "handle_ack e response rid s = Inr s"
  using assms by (simp add: handle_ack_def)

lemma handle_ack_twice:
  assumes "m_request_clients s rid = Some c"
  shows "bnd (handle_ack e response rid s) (handle_ack e response' rid) =
           Inr (s\<lparr>client_sent := client_sent s @ [(c, ''Sucess operation'')],
                   m_request_clients := (m_request_clients s)(rid := None)\<rparr>)"
  by (simp add: handle_ack_registered [OF assms] bnd_def handle_ack_unregistered)

lemma dispatch_ack:
  assumes "5 \<le> length response" and "length response \<noteq> 9" and "response ! 1 = ACK"
  shows "handle_response e response s = handle_ack e response (response ! 2) s"
  using assms
  by (simp add: handle_response_def dispatch_response_def m_response_handlers_def
      response_type_defs PACKET_HEADER_SIZE_def)

text \<open>
  Claim C3, as the code has it. An ACK frame is handled by \<open>handle_ack\<close> with the id at
  byte 2. When an operator is registered under that id, the handler delivers to that
  operator exactly one text, "Sucess operation" (so spelled in the source), and removes
  the entry: afterwards the id has no pending operator, and a second ACK with the same
  id changes nothing and delivers nothing.
\<close>

theorem handle_ack_delivers:
  assumes "m_request_clients s rid = Some c"
  shows "handle_ack e response rid s =
           Inr (s\<lparr>client_sent := client_sent s @ [(c, ''Sucess operation'')],
                   m_request_clients := (m_request_clients s)(rid := None)\<rparr>)
       \<and> (\<forall>s'. handle_ack e response rid s = Inr s' \<longrightarrow>
              m_request_clients s' rid = None \<and> handle_ack e response' rid s' = Inr s')
       \<and> (5 \<le> length response \<and> length response \<noteq> 9 \<and> response ! 1 = ACK
              \<and> response ! 2 = rid \<longrightarrow>
            handle_response e response s = handle_ack e response rid s)"
proof (intro conjI allI impI)
  show "handle_ack e response rid s =
           Inr (s\<lparr>client_sent := client_sent s @ [(c, ''Sucess operation'')],
                   m_request_clients := (m_request_clients s)(rid := None)\<rparr>)"
    by (rule handle_ack_registered [OF assms])
next
  fix s' assume "handle_ack e response rid s = Inr s'"
  then have s': "s' = s\<lparr>client_sent := client_sent s @ [(c, ''Sucess operation'')],
                         m_request_clients := (m_request_clients s)(rid := None)\<rparr>"
    by (simp add: handle_ack_registered [OF assms])
  then show "m_request_clients s' rid = None" by simp
  then show "handle_ack e response' rid s' = Inr s'"
    by (rule handle_ack_unregistered)
next
  assume "5 \<le> length response \<and> length response \<noteq> 9 \<and> response ! 1 = ACK
          \<and> response ! 2 = rid"
  then show "handle_response e response s = handle_ack e response rid s"
    using dispatch_ack [of response e s] by auto
qed

theorem handle_ack_delivers_witness:
  "m_request_clients (s0\<lparr>m_request_clients := [7 \<mapsto> 3]\<rparr>) 7 = Some 3
   \<and> handle_response e0 [5, 0x08, 7, 0, 0x55] (s0\<lparr>m_request_clients := [7 \<mapsto> 3]\<rparr>)
       = Inr (s0\<lparr>m_request_clients := [7 \<mapsto> 3],
                 client_sent := client_sent (s0\<lparr>m_request_clients := [7 \<mapsto> 3]\<rparr>)
                                @ [(3, ''Sucess operation'')],
                 m_request_clients := [7 \<mapsto> 3](7 := None)\<rparr>)"
  using handle_ack_delivers [of "s0\<lparr>m_request_clients := [7 \<mapsto> 3]\<rparr>" 7 3 e0
      "[5, 0x08, 7, 0, 0x55]" "[5, 0x08, 7, 0, 0x55]"]
  by (simp add: ACK_def)

theorem handle_ack_delivers_counterexample:
  "handle_response e0 [5, 0x08, 7, 0, 0x55] (s0\<lparr>m_request_clients := [7 \<mapsto> 3]\<rparr>)
     = Inr (s0\<lparr>m_request_clients := [7 \<mapsto> 3],
               client_sent := [(3, ''Sucess operation'')],
               m_request_clients := [7 \<mapsto> 3](7 := None)\<rparr>)
   \<and> ''Sucess operation'' \<noteq> ''Success operation''"
  by (simp add: handle_response_def dispatch_response_def m_response_handlers_def
      response_type_defs PACKET_HEADER_SIZE_def handle_ack_def sendMessage_def s0_def)

section \<open>Claims on the outbound requests\<close>

lemma get_current_time_sent:
  "get_current_time e c s =
     Inr (s\<lparr>current_id := (if current_id s = 0xFF then 1 else current_id s + 1),
             m_request_clients := (m_request_clients s)(current_id s \<mapsto> c),
             link_sent := link_sent s @
               [[9, REQUEST_CURRENT_TIME, (if current_id s = 0xFF then 0 else current_id s), 0,
                 uninit_buffer e 0, uninit_buffer e 1, uninit_buffer e 2, uninit_buffer e 3,
                 END_MARK]]\<rparr>)"
proof -
  have idx: "[0..<4] = [0, 1, 2, 3::nat]"
    by (simp add: upt_rec)
  show ?thesis
    by (cases "current_id s = 0xFF")
      (simp_all add: get_current_time_def generateID_def create_message_packet_def
        send_packet_to_altair_def PACKET_HEADER_SIZE_def Let_def idx)
qed

lemma get_current_time_nine_bytes:
  "\<exists>s' rid. get_current_time e c s = Inr s'
     \<and> link_sent s' = link_sent s @
          [[9, 0x17, rid, 0, uninit_buffer e 0, uninit_buffer e 1, uninit_buffer e 2,
            uninit_buffer e 3, 0x55]]
     \<and> length (last (link_sent s')) = 9"
  by (simp add: get_current_time_sent REQUEST_CURRENT_TIME_def END_MARK_def)

text \<open>
  Claim C4. A \<open>get_current_time\<close> request on the initial server writes one packet of 9
  bytes whose \<open>data_len\<close> byte is 9, not 5: \<open>data_len\<close> was raised by \<open>sizeof(uint32_t)\<close>
  and no payload was written, so the four bytes between the header and the end marker
  are whatever the packet's buffer held (0xAA in one run, 0x11 in another).
\<close>

theorem get_current_time_packet:
  "get_current_time e0 3 s0 =
     Inr (s0\<lparr>current_id := 1, m_request_clients := [0 \<mapsto> 3],
             link_sent := [[9, 0x17, 0, 0, 0xAA, 0xAA, 0xAA, 0xAA, 0x55]]\<rparr>)
   \<and> get_current_time (e0\<lparr>uninit_buffer := (\<lambda>i. 0x11)\<rparr>) 3 s0 =
     Inr (s0\<lparr>current_id := 1, m_request_clients := [0 \<mapsto> 3],
             link_sent := [[9, 0x17, 0, 0, 0x11, 0x11, 0x11, 0x11, 0x55]]\<rparr>)
   \<and> hd [9, 0x17, 0, 0, 0xAA, 0xAA, 0xAA, 0xAA, 0x55] \<noteq> (5 :: u8)
   \<and> length [9, 0x17, 0, 0, 0xAA, 0xAA, 0xAA, 0xAA, 0x55 :: u8] \<noteq> 5"
  by (simp add: get_current_time_sent REQUEST_CURRENT_TIME_def END_MARK_def s0_def e0_def)

text \<open>
  Claim C9. With the allocator's counter at 0xFF, \<open>get_current_time\<close> registers the
  operator 3 under the key 0xFF, while the packet written to the link carries the
  response id 0 (byte 2), under which nothing is registered.
\<close>

theorem get_current_time_id_mismatch:
  "\<exists>s'. get_current_time e0 3 (s0\<lparr>current_id := 0xFF\<rparr>) = Inr s'
     \<and> m_request_clients s' 0xFF = Some 3
     \<and> link_sent s' = [[9, 0x17, 0, 0, 0xAA, 0xAA, 0xAA, 0xAA, 0x55]]
     \<and> last (link_sent s') ! 2 = 0
     \<and> m_request_clients s' (last (link_sent s') ! 2) = None"
  by (simp add: get_current_time_sent REQUEST_CURRENT_TIME_def END_MARK_def s0_def e0_def)

lemma get_current_time_id_match:
  assumes "current_id s \<noteq> 0xFF" and "get_current_time e c s = Inr s'"
  shows "m_request_clients s' (last (link_sent s') ! 2) = Some c"
  using assms by (auto simp: get_current_time_sent)

lemma get_sensor_in_range_id_mismatch:
  "\<exists>s'. get_sensor_in_range e0 100 200 3 (s0\<lparr>current_id := 0xFF\<rparr>) = Inr s'
     \<and> m_request_clients s' 0xFF = Some 3
     \<and> link_sent s' = [[13, 0x13, 0, 0, 100, 0, 0, 0, 200, 0, 0, 0, 0x55]]
     \<and> m_request_clients s' (last (link_sent s') ! 2) = None"
proof -
  have idx: "[0..<8] = [0, 1, 2, 3, 4, 5, 6, 7::nat]"
    by (simp add: upt_rec)
  show ?thesis
    by (simp add: get_sensor_in_range_def generateID_def create_message_packet_def
        send_packet_to_altair_def PACKET_HEADER_SIZE_def Let_def idx write_bytes_def
        bytes_of_u32_def REQUEST_SENSOR_LOGS_def END_MARK_def s0_def e0_def)
qed

lemma get_event_in_range_id_mismatch:
  "\<exists>s'. get_event_in_range e0 100 200 3 (s0\<lparr>current_id := 0xFF\<rparr>) = Inr s'
     \<and> m_request_clients s' 0xFF = Some 3
     \<and> link_sent s' = [[13, 0x16, 0, 0, 100, 0, 0, 0, 200, 0, 0, 0, 0x55]]
     \<and> m_request_clients s' (last (link_sent s') ! 2) = None"
proof -
  have idx: "[0..<8] = [0, 1, 2, 3, 4, 5, 6, 7::nat]"
    by (simp add: upt_rec)
  show ?thesis
    by (simp add: get_event_in_range_def generateID_def create_message_packet_def
        send_packet_to_altair_def PACKET_HEADER_SIZE_def Let_def idx write_bytes_def
        bytes_of_u32_def REQUEST_EVENT_LOG_def END_MARK_def s0_def e0_def)
qed

section \<open>Claims on the beacon handler\<close>


lemma handle_beacon_returns:
  assumes "12 \<le> length response"
  shows "\<exists>s'. handle_beacon e response rid s = Inr s'"
  by (simp add: handle_beacon_def parse_sensor_data_long [OF assms] bnd_def)





section \<open>Claims on the operator commands\<close>

lemmas stream_defs = istringstream_of_def extract_string_def extract_int_def extract_u32_def
  sentry_def good_def scan_sign_def dec_value_def isspace_def isdigit_def

lemmas request_defs = handle_request_def update_light_def update_humidity_def send_value_def
  generateID_def create_message_packet_def send_packet_to_altair_def sendMessage_def
  write_bytes_def bnd_def PACKET_HEADER_SIZE_def END_MARK_def UPDATE_LIGHT_def
  UPDATE_HUMIDITY_def to_string_def digits10.simps s0_def e0_def

lemma update_humidity_non_numeric:
  "handle_request e0 ''update_humidity abc'' 3 s0 =
     Inr (s0\<lparr>client_sent := [(3, ''Error: Invalid humidity value'')]\<rparr>)"
  by (simp add: request_defs stream_defs)

lemma handle_request_int_parse_failure:
  assumes "extract_string (istringstream_of message) [] = (command, iss)"
    and "command = ''update_min_temp'' \<or> command = ''update_max_temp''
         \<or> command = ''update_humidity''"
    and "failbit (snd (extract_int iss (uninit_int e)))"
  shows "\<exists>text. handle_request e message c s = Inr (sendMessage c text s)"
proof -
  obtain v iss1 where x: "extract_int iss (uninit_int e) = (v, iss1)"
    by (cases "extract_int iss (uninit_int e)")
  with assms(3) have f: "failbit iss1" by simp
  from assms(2) show ?thesis
  proof (elim disjE)
    assume "command = ''update_min_temp''"
    then have "handle_request e message c s
                 = Inr (sendMessage c ''Error: Invalid temperature value'' s)"
      by (simp add: handle_request_def assms(1) x f)
    then show ?thesis by (intro exI)
  next
    assume "command = ''update_max_temp''"
    then have "handle_request e message c s
                 = Inr (sendMessage c ''Error: Invalid temperature value'' s)"
      by (simp add: handle_request_def assms(1) x f)
    then show ?thesis by (intro exI)
  next
    assume "command = ''update_humidity''"
    then have "handle_request e message c s
                 = Inr (sendMessage c ''Error: Invalid humidity value'' s)"
      by (simp add: handle_request_def assms(1) x f)
    then show ?thesis by (intro exI)
  qed
qed

lemma handle_request_u32_parse_failure:
  assumes "extract_string (istringstream_of message) [] = (command, iss)"
    and "(command = ''set_time'' \<and> failbit (snd (extract_u32 iss (uninit_u32 e))))
       \<or> ((command = ''get_sensor_logs'' \<or> command = ''get_events_logs'')
            \<and> failbit (snd (extract_u32 (snd (extract_u32 iss (uninit_u32 e))) (uninit_u32 e))))"
  shows "\<exists>text. handle_request e message c s = Inr (sendMessage c text s)"
proof -
  obtain v1 iss1 where x1: "extract_u32 iss (uninit_u32 e) = (v1, iss1)"
    by (cases "extract_u32 iss (uninit_u32 e)")
  obtain v2 iss2 where x2: "extract_u32 iss1 (uninit_u32 e) = (v2, iss2)"
    by (cases "extract_u32 iss1 (uninit_u32 e)")
  from assms(2) consider
      (t) "command = ''set_time''" "failbit iss1"
    | (s) "command = ''get_sensor_logs''" "failbit iss2"
    | (ev) "command = ''get_events_logs''" "failbit iss2"
    using x1 x2 by auto
  then show ?thesis
  proof cases
    case t
    then have "handle_request e message c s
        = Inr (sendMessage c ''Error: Invalid time value. Format: set_time <unix_timestamp>'' s)"
      by (simp add: handle_request_def assms(1) x1)
    then show ?thesis by (intro exI)
  next
    case s
    then have "handle_request e message c s
        = Inr (sendMessage c (''Error: Invalid timestamp values. ''
                 @ ''Format: get_logs <start_timestamp> <end_timestamp>'') s)"
      by (simp add: handle_request_def assms(1) x1 x2)
    then show ?thesis by (intro exI)
  next
    case ev
    then have "handle_request e message c s
        = Inr (sendMessage c (''Error: Invalid timestamp values. ''
                 @ ''Format: get_events_logs <start_timestamp> <end_timestamp>'') s)"
      by (simp add: handle_request_def assms(1) x1 x2)
    then show ?thesis by (intro exI)
  qed
qed

text \<open>
  Claim C5. The command \<open>update_light abc\<close>: the extraction fails and stores 0, the
  branch does not test \<open>iss.fail()\<close>, 0 passes the range check, and the server writes an
  UPDATE_LIGHT packet with the payload 0 to the link and tells the operator that the
  light was updated.
\<close>

theorem update_light_non_numeric:
  "extract_int (snd (extract_string (istringstream_of ''update_light abc'') [])) (uninit_int e0)
     = (0, \<lparr>buf = ''abc'', failbit = True, eofbit = False\<rparr>)
   \<and> handle_request e0 ''update_light abc'' 3 s0 =
       Inr (s0\<lparr>current_id := 1, link_sent := [[6, 0x06, 0, 0, 0, 0x55]],
                client_sent := [(3, ''Light updated to 0%'')]\<rparr>)"
  by (simp add: request_defs stream_defs)

end
